theory Spec2Isabelle
  imports Complex_Main
begin

section \<open>Linear elastic isotropic materials (jax\_materials/elasticity.py)\<close>

text \<open>
  Numbers are modelled as exact reals: the formulas of the module are read as the
  algebra they express, rounding of floating-point arithmetic is not part of the model.
  What is part of the model is every place where the Python raises: a division of
  Python floats by zero (\<open>ZeroDivisionError\<close>), the \<open>ValueError\<close> of the
  constructor, the read of an attribute that was never assigned
  (\<open>AttributeError\<close>) and a matrix-vector product of arrays whose shapes do not
  fit (\<open>TypeError\<close>).
\<close>

datatype error = ValueError | ZeroDivisionError | AttributeError | TypeError

type_synonym vec = "real list"
type_synonym mat = "real list list"

text \<open>Arrays of rank 0, 1 and 2; the entries of a state dictionary are arrays.\<close>

datatype array = Scalar real | Vec vec | Mat mat

type_synonym state = "string \<rightharpoonup> array"

text \<open>The components of a returned tuple are dynamically typed objects.\<close>

datatype pyobj = Arr array | State state

datatype cls = LinearElasticIsotropic | PlaneStressLinearElasticIsotropic

text \<open>
  An instance: its class and the six attributes the constructor assigns, \<open>None\<close>
  while an attribute has not been assigned. Whatever else the base class
  \<open>JAXMaterial\<close> keeps on the object lives in the extension of the record.
\<close>

record material =
  klass :: cls
  self_E :: "real option"
  self_nu :: "real option"
  self_kappa :: "real option"
  self_mu :: "real option"
  self_C :: "mat option"
  self_S :: "mat option"

subsection \<open>Arithmetic and arrays\<close>

text \<open>\<open>a / b\<close> on Python floats.\<close>

definition pdiv :: "real \<Rightarrow> real \<Rightarrow> error + real" where
  "pdiv a b = (if b = 0 then Inl ZeroDivisionError else Inr (a / b))"

text \<open>Sequencing: an exception of the first computation ends the whole.\<close>

definition and_then :: "error + 'a \<Rightarrow> ('a \<Rightarrow> error + 'b) \<Rightarrow> error + 'b" where
  "and_then r f = (case r of Inl e \<Rightarrow> Inl e | Inr x \<Rightarrow> f x)"

text \<open>\<open>a * M\<close> for a scalar and a rank-2 array.\<close>

definition smul :: "real \<Rightarrow> mat \<Rightarrow> mat" where
  "smul a M = map (map ((*) a)) M"

text \<open>\<open>A + B\<close> for two rank-2 arrays of one shape, entry by entry.\<close>

definition madd :: "mat \<Rightarrow> mat \<Rightarrow> mat" where
  "madd A B = map2 (map2 (+)) A B"

text \<open>\<open>u - v\<close> for two rank-1 arrays of one shape.\<close>

definition vsub :: "vec \<Rightarrow> vec \<Rightarrow> vec" where
  "vsub u v = map2 (-) u v"

text \<open>The product of a rank-2 array with a rank-1 array, row by row.\<close>

definition matvec :: "mat \<Rightarrow> vec \<Rightarrow> vec" where
  "matvec c eps = map (\<lambda>row. sum_list (map2 (*) row eps)) c"

text \<open>The contracted dimensions fit: every row of \<open>c\<close> is as long as \<open>eps\<close>.\<close>

definition conforms :: "mat \<Rightarrow> vec \<Rightarrow> bool" where
  "conforms c eps = list_all (\<lambda>row. length row = length eps) c"

text \<open>\<open>jnp.dot(c, eps)\<close>: raises when the shapes do not fit.\<close>

definition dot :: "mat \<Rightarrow> vec \<Rightarrow> error + vec" where
  "dot c eps = (if conforms c eps then Inr (matvec c eps) else Inl TypeError)"

subsection \<open>The constructor\<close>

text \<open>
  Lines 33 to 44 of \<open>__init__\<close>: the four local variables \<open>E\<close>, \<open>nu\<close>,
  \<open>kappa\<close>, \<open>mu\<close> after the branch, or the exception raised there.
\<close>

definition init_moduli ::
  "real option \<Rightarrow> real option \<Rightarrow> real option \<Rightarrow> real option \<Rightarrow>
   error + real \<times> real \<times> real \<times> real" where
  "init_moduli E nu kappa mu =
     (case (E, nu) of
        (Some E', Some nu') \<Rightarrow>
          and_then (pdiv E' (3 * (1 - 2 * nu'))) (\<lambda>kappa'.
          and_then (pdiv E' (2 * (1 + nu'))) (\<lambda>mu'.
          Inr (E', nu', kappa', mu')))
      | _ \<Rightarrow>
        (case (kappa, mu) of
           (Some kappa', Some mu') \<Rightarrow>
             and_then (pdiv (9 * kappa' * mu') (3 * kappa' + mu')) (\<lambda>E'.
             and_then (pdiv (3 * kappa' - 2 * mu') (2 * (3 * kappa' + mu'))) (\<lambda>nu'.
             Inr (E', nu', kappa', mu')))
         | _ \<Rightarrow> Inl ValueError))"

text \<open>
  \<open>__init__(self, E, nu, kappa, mu)\<close>. The arrays \<open>J\<close> and \<open>K\<close> are the two
  constants the module imports from \<open>.tensors\<close>; they are parameters here.
  \<open>self\<close> is the object as \<open>super().__init__()\<close> has left it. The result is the
  object after the call and the exception raised, if any: an exception of lines 33
  to 44 leaves the object untouched, one of line 51 leaves it with the five
  attributes assigned before.
\<close>

definition init ::
  "mat \<Rightarrow> mat \<Rightarrow> 'a material_scheme \<Rightarrow>
   real option \<Rightarrow> real option \<Rightarrow> real option \<Rightarrow> real option \<Rightarrow>
   'a material_scheme \<times> error option" where
  "init J K self E nu kappa mu =
     (case init_moduli E nu kappa mu of
        Inl e \<Rightarrow> (self, Some e)
      | Inr (E', nu', kappa', mu') \<Rightarrow>
          (let self1 = self\<lparr>self_E := Some E', self_nu := Some nu',
                              self_kappa := Some kappa', self_mu := Some mu',
                              self_C := Some (madd (smul (3 * kappa') J) (smul (2 * mu') K))\<rparr>
           in case pdiv 1 (3 * kappa') of
                Inl e \<Rightarrow> (self1, Some e)
              | Inr a \<Rightarrow>
                 (case pdiv 1 (2 * mu') of
                    Inl e \<Rightarrow> (self1, Some e)
                  | Inr b \<Rightarrow>
                      (self1\<lparr>self_S := Some (madd (smul a J) (smul b K))\<rparr>, None))))"

subsection \<open>The methods\<close>

text \<open>\<open>LinearElasticIsotropic.get_Lame_parameters\<close>.\<close>

definition get_Lame_parameters_3D :: "real \<Rightarrow> real \<Rightarrow> error + real \<times> real" where
  "get_Lame_parameters_3D E nu =
     and_then (pdiv (E * nu) (1 + nu)) (\<lambda>t.
     and_then (pdiv t (1 - 2 * nu)) (\<lambda>lmbda.
     and_then (pdiv (E / 2) (1 + nu)) (\<lambda>mu.
     Inr (lmbda, mu))))"

text \<open>\<open>PlaneStressLinearElasticIsotropic.get_Lame_parameters\<close>.\<close>

definition get_Lame_parameters_plane_stress :: "real \<Rightarrow> real \<Rightarrow> error + real \<times> real" where
  "get_Lame_parameters_plane_stress E nu =
     and_then (pdiv (E * nu) (1 + nu)) (\<lambda>t.
     and_then (pdiv t (1 - 2 * nu)) (\<lambda>lmbda.
     and_then (pdiv (E / 2) (1 + nu)) (\<lambda>mu.
     and_then (pdiv (2 * mu * lmbda) (lmbda + 2 * mu)) (\<lambda>l.
     Inr (l, mu)))))"

text \<open>\<open>self.get_Lame_parameters(E, nu)\<close>: the method of the object's class.\<close>

definition get_Lame_parameters ::
  "'a material_scheme \<Rightarrow> real \<Rightarrow> real \<Rightarrow> error + real \<times> real" where
  "get_Lame_parameters self E nu =
     (case klass self of
        LinearElasticIsotropic \<Rightarrow> get_Lame_parameters_3D E nu
      | PlaneStressLinearElasticIsotropic \<Rightarrow> get_Lame_parameters_plane_stress E nu)"

text \<open>\<open>compute_C(self, E, nu)\<close>, inherited by the subclass as it is.\<close>

definition compute_C ::
  "mat \<Rightarrow> mat \<Rightarrow> 'a material_scheme \<Rightarrow> real \<Rightarrow> real \<Rightarrow> error + mat" where
  "compute_C J K self E nu =
     and_then (get_Lame_parameters self E nu) (\<lambda>(lmbda, mu).
       (let kappa = lmbda + 2 / 3 * mu
        in Inr (madd (smul (3 * kappa) J) (smul (2 * mu) K))))"

text \<open>\<open>compute_C_plane_stress(self)\<close>.\<close>

definition compute_C_plane_stress :: "'a material_scheme \<Rightarrow> error + mat" where
  "compute_C_plane_stress self =
     (case self_E self of
        None \<Rightarrow> Inl AttributeError
      | Some E \<Rightarrow>
         (case self_nu self of
            None \<Rightarrow> Inl AttributeError
          | Some nu \<Rightarrow>
              and_then (pdiv E (1 - nu ^ 2)) (\<lambda>factor.
              (let C11 = factor; C22 = factor; C12 = factor * nu
               in and_then (pdiv E (2 * (1 + nu))) (\<lambda>C33.
                  Inr [[C11, C12, 0], [C12, C22, 0], [0, 0, C33]])))))"

text \<open>
  \<open>constitutive_update(self, eps, state, dt)\<close>. The result is the object after the
  call (the method assigns to no attribute) and either the exception raised or the
  returned tuple \<open>(self.C, state)\<close>, where \<open>state\<close> is the dictionary that was
  passed, with its entry \<open>"Stress"\<close> assigned.
\<close>

definition constitutive_update ::
  "'a material_scheme \<Rightarrow> vec \<Rightarrow> state \<Rightarrow> real \<Rightarrow>
   'a material_scheme \<times> (error + pyobj list)" where
  "constitutive_update self eps state dt =
     (case self_C self of
        None \<Rightarrow> (self, Inl AttributeError)
      | Some c \<Rightarrow>
         (case dot c eps of
            Inl e \<Rightarrow> (self, Inl e)
          | Inr sig \<Rightarrow>
              (self, Inr [Arr (Mat c), State (state(''Stress'' \<mapsto> Vec sig))])))"

subsection \<open>Example inputs\<close>

text \<open>
  Concrete inputs on which the theorems below are evaluated: two 6-by-6 arrays for the
  parameters \<open>J\<close> and \<open>K\<close> (the spherical and the deviatoric projector on
  six-component strain vectors), an object on which no attribute has been assigned yet,
  and the object the constructor makes of it for \<open>E = 5/2\<close>, \<open>nu = 1/4\<close>
  (equally for \<open>kappa = 5/3\<close>, \<open>mu = 1\<close>).
\<close>

abbreviation ex_J :: mat where
  "ex_J \<equiv> [[1/3, 1/3, 1/3, 0, 0, 0], [1/3, 1/3, 1/3, 0, 0, 0], [1/3, 1/3, 1/3, 0, 0, 0],
            [0, 0, 0, 0, 0, 0], [0, 0, 0, 0, 0, 0], [0, 0, 0, 0, 0, 0]]"

abbreviation ex_K :: mat where
  "ex_K \<equiv> [[2/3, - (1/3), - (1/3), 0, 0, 0], [- (1/3), 2/3, - (1/3), 0, 0, 0], [- (1/3), - (1/3), 2/3, 0, 0, 0],
            [0, 0, 0, 1, 0, 0], [0, 0, 0, 0, 1, 0], [0, 0, 0, 0, 0, 1]]"

abbreviation ex_C :: mat where
  "ex_C \<equiv> [[3, 1, 1, 0, 0, 0], [1, 3, 1, 0, 0, 0], [1, 1, 3, 0, 0, 0],
            [0, 0, 0, 2, 0, 0], [0, 0, 0, 0, 2, 0], [0, 0, 0, 0, 0, 2]]"

abbreviation ex_S :: mat where
  "ex_S \<equiv> [[2/5, - (1/10), - (1/10), 0, 0, 0], [- (1/10), 2/5, - (1/10), 0, 0, 0],
            [- (1/10), - (1/10), 2/5, 0, 0, 0],
            [0, 0, 0, 1/2, 0, 0], [0, 0, 0, 0, 1/2, 0], [0, 0, 0, 0, 0, 1/2]]"

abbreviation fresh :: "cls \<Rightarrow> material" where
  "fresh c \<equiv> \<lparr>klass = c, self_E = None, self_nu = None, self_kappa = None,
              self_mu = None, self_C = None, self_S = None\<rparr>"

abbreviation ex_material :: "cls \<Rightarrow> material" where
  "ex_material c \<equiv> \<lparr>klass = c, self_E = Some (5/2), self_nu = Some (1/4),
              self_kappa = Some (5/3), self_mu = Some 1, self_C = Some ex_C, self_S = Some ex_S\<rparr>"

section \<open>Auxiliary facts\<close>

subsection \<open>Exceptions and the constructor\<close>

lemma and_then_Inr [simp]: "and_then (Inr x) f = f x"
  by (simp add: and_then_def)

lemma and_then_Inl [simp]: "and_then (Inl e) f = Inl e"
  by (simp add: and_then_def)

lemma pdiv_nonzero: "b \<noteq> 0 \<Longrightarrow> pdiv a b = Inr (a / b)"
  by (simp add: pdiv_def)

lemma pdiv_zero: "pdiv a 0 = Inl ZeroDivisionError"
  by (simp add: pdiv_def)

lemma pdiv_Inr_iff: "pdiv a b = Inr q \<longleftrightarrow> b \<noteq> 0 \<and> q = a / b"
  by (auto simp: pdiv_def)

lemma pdiv_Inl_iff: "pdiv a b = Inl e \<longleftrightarrow> b = 0 \<and> e = ZeroDivisionError"
  by (auto simp: pdiv_def)

lemma init_moduli_ValueError:
  "init_moduli E nu kappa mu = Inl ValueError \<longleftrightarrow>
     (E = None \<or> nu = None) \<and> (kappa = None \<or> mu = None)"
  by (auto simp: init_moduli_def pdiv_def split: option.splits)

lemma init_moduli_given_E_nu:
  "init_moduli (Some E1) (Some nu1) kappa mu =
     (if nu1 = 1 / 2 \<or> nu1 = - 1 then Inl ZeroDivisionError
      else Inr (E1, nu1, E1 / (3 * (1 - 2 * nu1)), E1 / (2 * (1 + nu1))))"
  by (auto simp: init_moduli_def pdiv_def)

lemma init_moduli_given_kappa_mu:
  "E = None \<or> nu = None \<Longrightarrow>
   init_moduli E nu (Some k1) (Some mu1) =
     (if 3 * k1 + mu1 = 0 then Inl ZeroDivisionError
      else Inr (9 * k1 * mu1 / (3 * k1 + mu1),
                (3 * k1 - 2 * mu1) / (2 * (3 * k1 + mu1)), k1, mu1))"
  by (auto simp: init_moduli_def pdiv_def split: option.splits)

lemma init_unfold:
  "init J K self E nu kappa mu =
     (case init_moduli E nu kappa mu of
        Inl e \<Rightarrow> (self, Some e)
      | Inr (E', nu', kappa', mu') \<Rightarrow>
          (if kappa' = 0 \<or> mu' = 0
           then (self\<lparr>self_E := Some E', self_nu := Some nu',
                       self_kappa := Some kappa', self_mu := Some mu',
                       self_C := Some (madd (smul (3 * kappa') J) (smul (2 * mu') K))\<rparr>,
                 Some ZeroDivisionError)
           else (self\<lparr>self_E := Some E', self_nu := Some nu',
                       self_kappa := Some kappa', self_mu := Some mu',
                       self_C := Some (madd (smul (3 * kappa') J) (smul (2 * mu') K)),
                       self_S := Some (madd (smul (1 / (3 * kappa')) J)
                                            (smul (1 / (2 * mu')) K))\<rparr>,
                 None)))"
  by (auto simp: init_def pdiv_def Let_def split: sum.splits prod.splits)

lemma init_ValueError_iff:
  "snd (init J K self E nu kappa mu) = Some ValueError \<longleftrightarrow>
     init_moduli E nu kappa mu = Inl ValueError"
  by (auto simp: init_unfold split: sum.splits prod.splits)

lemma init_success:
  assumes "init J K self E nu kappa mu = (m, None)"
  obtains E1 nu1 k1 mu1 where
    "init_moduli E nu kappa mu = Inr (E1, nu1, k1, mu1)" "k1 \<noteq> 0" "mu1 \<noteq> 0"
    "m = self\<lparr>self_E := Some E1, self_nu := Some nu1,
               self_kappa := Some k1, self_mu := Some mu1,
               self_C := Some (madd (smul (3 * k1) J) (smul (2 * mu1) K)),
               self_S := Some (madd (smul (1 / (3 * k1)) J) (smul (1 / (2 * mu1)) K))\<rparr>"
  using assms by (auto simp: init_unfold split: sum.splits prod.splits if_splits)


subsection \<open>The algebra of the moduli\<close>

lemma E_nu_of_kappa_mu:
  fixes k mu :: real
  assumes "k \<noteq> 0" "mu \<noteq> 0" "3 * k + mu \<noteq> 0"
  defines "E1 \<equiv> 9 * k * mu / (3 * k + mu)"
    and "nu1 \<equiv> (3 * k - 2 * mu) / (2 * (3 * k + mu))"
  shows "3 * (1 - 2 * nu1) \<noteq> 0" "E1 / (3 * (1 - 2 * nu1)) = k"
    "2 * (1 + nu1) \<noteq> 0" "E1 / (2 * (1 + nu1)) = mu"
proof -
  define d where "d = 3 * k + mu"
  have d: "d \<noteq> 0" using assms(3) by (simp add: d_def)
  have E1: "E1 = 9 * k * mu / d" and nu1: "nu1 = (3 * k - 2 * mu) / (2 * d)"
    by (simp_all add: E1_def nu1_def d_def)
  have a: "1 - 2 * nu1 = 3 * mu / d"
    unfolding nu1 using d by (simp add: field_simps, simp add: d_def algebra_simps)
  have b: "1 + nu1 = 9 * k / (2 * d)"
    unfolding nu1 using d by (simp add: field_simps, simp add: d_def algebra_simps)
  show "3 * (1 - 2 * nu1) \<noteq> 0" unfolding a using d assms(2) by simp
  show "2 * (1 + nu1) \<noteq> 0" unfolding b using d assms(1) by simp
  show "E1 / (3 * (1 - 2 * nu1)) = k"
    unfolding a E1 using d assms(2) by simp
  show "E1 / (2 * (1 + nu1)) = mu"
    unfolding b E1 using d assms(1) by simp
qed

lemma kappa_mu_of_E_nu:
  fixes E nu :: real
  assumes "E \<noteq> 0" "nu \<noteq> 1 / 2" "nu \<noteq> - 1"
  defines "k \<equiv> E / (3 * (1 - 2 * nu))" and "mu \<equiv> E / (2 * (1 + nu))"
  shows "3 * k + mu \<noteq> 0" "9 * k * mu / (3 * k + mu) = E"
    "(3 * k - 2 * mu) / (2 * (3 * k + mu)) = nu"
proof -
  define a b where "a = 1 + nu" and "b = 1 - 2 * nu"
  have n: "a \<noteq> 0" "b \<noteq> 0"
    using assms(2,3) by (auto simp: a_def b_def)
  have k: "k = E / (3 * b)" and mu: "mu = E / (2 * a)"
    by (simp_all add: k_def mu_def a_def b_def)
  have s: "3 * k + mu = 3 * E / (2 * a * b)"
    unfolding k mu using n by (simp add: field_simps, simp add: a_def b_def algebra_simps)
  have t: "3 * k - 2 * mu = 3 * E * nu / (a * b)"
    unfolding k mu using n by (simp add: field_simps, simp add: a_def b_def algebra_simps)
  have p: "9 * k * mu = 3 * E * E / (2 * a * b)"
    unfolding k mu using n by (simp add: field_simps)
  show "3 * k + mu \<noteq> 0" unfolding s using n assms(1) by simp
  show "9 * k * mu / (3 * k + mu) = E"
    unfolding s p using n assms(1) by simp
  show "(3 * k - 2 * mu) / (2 * (3 * k + mu)) = nu"
    unfolding s t using n assms(1) by simp
qed

lemma bulk_of_Lame:
  fixes E nu :: real
  assumes "nu \<noteq> 1 / 2" "nu \<noteq> - 1"
  shows "E * nu / (1 + nu) / (1 - 2 * nu) + 2 / 3 * (E / 2 / (1 + nu)) = E / (3 * (1 - 2 * nu))"
proof -
  define a b where "a = 1 + nu" and "b = 1 - 2 * nu"
  have n: "a \<noteq> 0" "b \<noteq> 0"
    using assms by (auto simp: a_def b_def)
  have "E * nu / a / b + 2 / 3 * (E / 2 / a) = E / (3 * b)"
    using n by (simp add: field_simps, simp add: a_def b_def algebra_simps)
  then show ?thesis by (simp add: a_def b_def)
qed

lemma plane_stress_lambda:
  fixes E nu :: real
  assumes "E \<noteq> 0" "nu \<noteq> 1 / 2" "nu \<noteq> - 1" "nu \<noteq> 1"
  defines "lmbda \<equiv> E * nu / (1 + nu) / (1 - 2 * nu)" and "mu \<equiv> E / 2 / (1 + nu)"
  shows "lmbda + 2 * mu \<noteq> 0" "2 * mu * lmbda / (lmbda + 2 * mu) = E * nu / (1 - nu ^ 2)"
proof -
  define a b c where "a = 1 + nu" and "b = 1 - 2 * nu" and "c = 1 - nu"
  have n: "a \<noteq> 0" "b \<noteq> 0" "c \<noteq> 0"
    using assms(2-4) by (auto simp: a_def b_def c_def)
  have l: "lmbda = E * nu / a / b" and mu: "mu = E / 2 / a"
    by (simp_all add: lmbda_def mu_def a_def b_def)
  have s: "lmbda + 2 * mu = E * c / (a * b)"
    unfolding l mu using n by (simp add: field_simps, simp add: a_def b_def c_def algebra_simps)
  have p: "2 * mu * lmbda = E * E * nu / (a * a * b)"
    unfolding l mu using n by (simp add: field_simps)
  have q: "1 - nu ^ 2 = c * a"
    by (simp add: a_def c_def power2_eq_square algebra_simps)
  show "lmbda + 2 * mu \<noteq> 0" unfolding s using n assms(1) by simp
  show "2 * mu * lmbda / (lmbda + 2 * mu) = E * nu / (1 - nu ^ 2)"
    unfolding s p q using n assms(1) by simp
qed

lemma one_minus_square:
  fixes nu :: real
  assumes "nu \<noteq> 1" "nu \<noteq> - 1"
  shows "1 - nu ^ 2 \<noteq> 0" "E / (2 * (1 + nu)) = E / (1 - nu ^ 2) * (1 - nu) / 2"
    "E / (1 - nu ^ 2) * nu = E * nu / (1 - nu ^ 2)"
proof -
  have n: "1 + nu \<noteq> 0" "1 - nu \<noteq> 0" using assms by auto
  have c: "1 - nu ^ 2 = (1 - nu) * (1 + nu)"
    by (simp add: power2_eq_square algebra_simps)
  show "1 - nu ^ 2 \<noteq> 0" using n by (simp add: c)
  show "E / (2 * (1 + nu)) = E / (1 - nu ^ 2) * (1 - nu) / 2"
    using n by (simp add: c)
  show "E / (1 - nu ^ 2) * nu = E * nu / (1 - nu ^ 2)" by simp
qed

subsection \<open>The example inputs, evaluated\<close>

lemma ex_init_E_nu:
  "init ex_J ex_K (fresh c) (Some (5/2)) (Some (1/4)) kappa mu = (ex_material c, None)"
  by (simp add: init_unfold init_moduli_given_E_nu smul_def madd_def)

lemma ex_init_kappa_mu:
  "init ex_J ex_K (fresh c) None None (Some (5/3)) (Some 1) = (ex_material c, None)"
  by (simp add: init_unfold init_moduli_given_kappa_mu smul_def madd_def)

lemma ex_conforms: "conforms ex_C [1, 2, 3, 4, 5, 6]"
  by (simp add: conforms_def)

lemma ex_matvec: "matvec ex_C [1, 2, 3, 4, 5, 6] = [8, 10, 12, 8, 10, 12]"
  by (simp add: matvec_def)

subsection \<open>Facts about the methods\<close>

lemma constitutive_update_unfold:
  "constitutive_update self eps state dt =
     (self, case self_C self of
              None \<Rightarrow> Inl AttributeError
            | Some c \<Rightarrow>
                if conforms c eps
                then Inr [Arr (Mat c), State (state(''Stress'' \<mapsto> Vec (matvec c eps)))]
                else Inl TypeError)"
  by (simp add: constitutive_update_def dot_def split: option.splits)

lemma init_klass:
  "init J K (self\<lparr>klass := c\<rparr>) E nu kappa mu =
     (fst (init J K self E nu kappa mu)\<lparr>klass := c\<rparr>, snd (init J K self E nu kappa mu))"
  by (simp add: init_unfold split: sum.splits prod.splits)

lemma constitutive_update_klass:
  "snd (constitutive_update (m\<lparr>klass := c\<rparr>) eps state dt) = snd (constitutive_update m eps state dt)"
  by (simp add: constitutive_update_unfold)

lemma compute_C_plane_stress_klass:
  "compute_C_plane_stress (m\<lparr>klass := c\<rparr>) = compute_C_plane_stress m"
  by (simp add: compute_C_plane_stress_def split: option.splits)

lemma row_product_diff:
  fixes row :: "real list"
  assumes "length row = length u" "length u = length v"
  shows "sum_list (map2 (*) row u) - sum_list (map2 (*) row v)
           = sum_list (map2 (*) row (map2 (-) u v))"
  using assms
proof (induction row u v rule: list_induct3)
  case Nil
  show ?case by simp
next
  case (Cons r row a u b v)
  then show ?case by (simp add: algebra_simps)
qed

lemma matvec_diff:
  assumes "conforms c u" "conforms c v"
  shows "vsub (matvec c u) (matvec c v) = matvec c (vsub u v)"
  using assms
  by (induction c) (simp_all add: vsub_def matvec_def conforms_def row_product_diff)

lemma conforms_vsub:
  assumes "conforms c u" "conforms c v"
  shows "conforms c (vsub u v)"
  using assms by (induction c) (simp_all add: conforms_def vsub_def)

lemma get_Lame_parameters_3D_value:
  assumes "nu \<noteq> 1 / 2" "nu \<noteq> - 1"
  shows "get_Lame_parameters_3D E nu = Inr (E * nu / (1 + nu) / (1 - 2 * nu), E / 2 / (1 + nu))"
proof -
  have "1 + nu \<noteq> 0" "1 - 2 * nu \<noteq> 0" using assms by auto
  then show ?thesis by (simp add: get_Lame_parameters_3D_def pdiv_def)
qed

lemma get_Lame_parameters_plane_stress_value:
  assumes "nu \<noteq> 1 / 2" "nu \<noteq> - 1"
  shows "get_Lame_parameters_plane_stress E nu =
           and_then (pdiv (2 * (E / 2 / (1 + nu)) * (E * nu / (1 + nu) / (1 - 2 * nu)))
                          (E * nu / (1 + nu) / (1 - 2 * nu) + 2 * (E / 2 / (1 + nu))))
             (\<lambda>l. Inr (l, E / 2 / (1 + nu)))"
proof -
  have "1 + nu \<noteq> 0" "1 - 2 * nu \<noteq> 0" using assms by auto
  then show ?thesis by (simp add: get_Lame_parameters_plane_stress_def pdiv_def)
qed

lemma compute_C_plane_stress_value:
  assumes "self_E m = Some E" "self_nu m = Some nu" "nu \<noteq> 1" "nu \<noteq> - 1"
  shows "compute_C_plane_stress m =
           Inr [[E / (1 - nu ^ 2), E / (1 - nu ^ 2) * nu, 0],
                [E / (1 - nu ^ 2) * nu, E / (1 - nu ^ 2), 0],
                [0, 0, E / (2 * (1 + nu))]]"
proof -
  have "1 - nu ^ 2 \<noteq> 0" using assms(3,4) by (rule one_minus_square)
  moreover have "2 * (1 + nu) \<noteq> 0" using assms(4) by auto
  ultimately show ?thesis
    using assms(1,2) by (simp add: compute_C_plane_stress_def pdiv_nonzero Let_def)
qed

section \<open>The claims\<close>

subsection \<open>C1\<close>

text \<open>
  Claim C1. On an object \<open>m\<close> that the constructor has built, \<open>constitutive_update\<close>
  returns the stiffness \<open>m.C\<close> as the tangent operator and the state whose entry
  \<open>"Stress"\<close> is the product of \<open>m.C\<close> with the strain, for every state and every
  \<open>dt\<close>, and for every strain vector that has as many components as \<open>m.C\<close> has columns
  (the product \<open>jnp.dot\<close> is defined for no other).
\<close>

theorem constitutive_update_returns_C_and_stress:
  assumes "init J K self E nu kappa mu = (m, None)"
  shows "\<exists>c. self_C m = Some c \<and>
           (conforms c eps \<longrightarrow>
              dot c eps = Inr (matvec c eps) \<and>
              constitutive_update m eps state dt =
                (m, Inr [Arr (Mat c), State (state(''Stress'' \<mapsto> Vec (matvec c eps)))]))"
  using assms by (rule init_success) (simp add: constitutive_update_unfold dot_def)

theorem constitutive_update_returns_C_and_stress_witness:
  "init ex_J ex_K (fresh LinearElasticIsotropic) (Some (5/2)) (Some (1/4)) None None
     = (ex_material LinearElasticIsotropic, None)
   \<and> conforms ex_C [1, 2, 3, 4, 5, 6]
   \<and> constitutive_update (ex_material LinearElasticIsotropic) [1, 2, 3, 4, 5, 6]
        [''p'' \<mapsto> Scalar 0] 1
       = (ex_material LinearElasticIsotropic,
          Inr [Arr (Mat ex_C),
               State [''p'' \<mapsto> Scalar 0, ''Stress'' \<mapsto> Vec [8, 10, 12, 8, 10, 12]]])"
proof -
  have h: "init ex_J ex_K (fresh LinearElasticIsotropic) (Some (5/2)) (Some (1/4)) None None
             = (ex_material LinearElasticIsotropic, None)"
    by (rule ex_init_E_nu)
  from constitutive_update_returns_C_and_stress [OF h, of "[1, 2, 3, 4, 5, 6]" "[''p'' \<mapsto> Scalar 0]" 1]
  show ?thesis
    using h ex_conforms by (simp add: ex_matvec)
qed

subsection \<open>C2\<close>

text \<open>
  Claim C2, as amended. What \<open>constitutive_update\<close> returns is a pair, not a triple: the
  tangent operator and the updated state. The stress is no component of its own; it is the
  entry \<open>"Stress"\<close> of the returned state, the product of the tangent with the strain.
\<close>

theorem constitutive_update_returns_pair:
  assumes "snd (constitutive_update m eps state dt) = Inr res"
  shows "\<exists>c sig. res = [Arr (Mat c), State (state(''Stress'' \<mapsto> Vec sig))] \<and>
            self_C m = Some c \<and> dot c eps = Inr sig"
  using assms
  by (auto simp: constitutive_update_unfold dot_def split: option.splits if_splits)

theorem constitutive_update_returns_pair_witness:
  "snd (constitutive_update (ex_material LinearElasticIsotropic) [1, 2, 3, 4, 5, 6]
          [''p'' \<mapsto> Scalar 0] 1)
     = Inr [Arr (Mat ex_C),
            State [''p'' \<mapsto> Scalar 0, ''Stress'' \<mapsto> Vec [8, 10, 12, 8, 10, 12]]]
   \<and> dot ex_C [1, 2, 3, 4, 5, 6] = Inr [8, 10, 12, 8, 10, 12]"
proof -
  have h: "snd (constitutive_update (ex_material LinearElasticIsotropic) [1, 2, 3, 4, 5, 6]
          [''p'' \<mapsto> Scalar 0] 1)
     = Inr [Arr (Mat ex_C),
            State [''p'' \<mapsto> Scalar 0, ''Stress'' \<mapsto> Vec [8, 10, 12, 8, 10, 12]]]"
    by (simp add: constitutive_update_unfold ex_conforms ex_matvec)
  from constitutive_update_returns_pair [OF h] h show ?thesis
    by (auto simp: dot_def ex_conforms ex_matvec)
qed

text \<open>
  The claim as stated, a result of three components with the stress as one of them, fails
  on the example: the result has two components.
\<close>

theorem constitutive_update_triple_counterexample:
  "snd (constitutive_update (ex_material LinearElasticIsotropic) [1, 2, 3, 4, 5, 6]
          (map_of [(''p'', Scalar 0)]) 1)
     = Inr [Arr (Mat ex_C),
            State ((map_of [(''p'', Scalar 0)])(''Stress'' \<mapsto> Vec [8, 10, 12, 8, 10, 12]))]
   \<and> length (projr (snd (constitutive_update (ex_material LinearElasticIsotropic)
          [1, 2, 3, 4, 5, 6] (map_of [(''p'', Scalar 0)]) 1))) \<noteq> 3"
  by (simp add: constitutive_update_unfold ex_conforms ex_matvec)

subsection \<open>C3\<close>



subsection \<open>C4\<close>




subsection \<open>C5\<close>



subsection \<open>C6\<close>



subsection \<open>C7\<close>



subsection \<open>C8\<close>

text \<open>
  Claim C8. The constructor raises \<open>ValueError\<close> exactly when \<open>E\<close> or \<open>nu\<close> is
  \<open>None\<close> and \<open>kappa\<close> or \<open>mu\<close> is \<open>None\<close>; the object is then as it was before,
  none of the six attributes assigned. When \<open>E\<close> and \<open>nu\<close> are given, the arguments
  \<open>kappa\<close> and \<open>mu\<close> are ignored, and the stored \<open>kappa\<close> and \<open>mu\<close> are the ones
  computed from \<open>E\<close> and \<open>nu\<close>.
\<close>

theorem init_raises_ValueError:
  "(snd (init J K self E nu kappa mu) = Some ValueError \<longleftrightarrow>
      (E = None \<or> nu = None) \<and> (kappa = None \<or> mu = None))
   \<and> (snd (init J K self E nu kappa mu) = Some ValueError \<longrightarrow>
        fst (init J K self E nu kappa mu) = self)
   \<and> init J K self (Some E1) (Some nu1) kappa mu = init J K self (Some E1) (Some nu1) None None
   \<and> (init J K self (Some E1) (Some nu1) kappa mu = (m, None) \<longrightarrow>
        self_E m = Some E1 \<and> self_nu m = Some nu1 \<and>
        self_kappa m = Some (E1 / (3 * (1 - 2 * nu1))) \<and>
        self_mu m = Some (E1 / (2 * (1 + nu1))))"
proof -
  have a: "snd (init J K self E nu kappa mu) = Some ValueError \<longleftrightarrow>
      (E = None \<or> nu = None) \<and> (kappa = None \<or> mu = None)"
    by (simp only: init_ValueError_iff init_moduli_ValueError)
  have b: "snd (init J K self E nu kappa mu) = Some ValueError \<longrightarrow>
        fst (init J K self E nu kappa mu) = self"
  proof
    assume "snd (init J K self E nu kappa mu) = Some ValueError"
    then have "init_moduli E nu kappa mu = Inl ValueError"
      by (simp only: init_ValueError_iff)
    then show "fst (init J K self E nu kappa mu) = self"
      by (simp add: init_def)
  qed
  have c: "init J K self (Some E1) (Some nu1) kappa mu
             = init J K self (Some E1) (Some nu1) None None"
    by (simp add: init_def init_moduli_given_E_nu)
  have d: "init J K self (Some E1) (Some nu1) kappa mu = (m, None) \<longrightarrow>
        self_E m = Some E1 \<and> self_nu m = Some nu1 \<and>
        self_kappa m = Some (E1 / (3 * (1 - 2 * nu1))) \<and>
        self_mu m = Some (E1 / (2 * (1 + nu1)))"
    by (auto simp: init_unfold init_moduli_given_E_nu split: if_splits)
  from a b c d show ?thesis by blast
qed

theorem init_raises_ValueError_witness:
  "snd (init ex_J ex_K (fresh LinearElasticIsotropic) None (Some (3 / 10)) (Some 2) None)
     = Some ValueError
   \<and> fst (init ex_J ex_K (fresh LinearElasticIsotropic) None (Some (3 / 10)) (Some 2) None)
     = fresh LinearElasticIsotropic
   \<and> init ex_J ex_K (fresh LinearElasticIsotropic) (Some (5 / 2)) (Some (1 / 4)) (Some 2) (Some 7)
     = (ex_material LinearElasticIsotropic, None)
   \<and> self_kappa (ex_material LinearElasticIsotropic) = Some (5 / 2 / (3 * (1 - 2 * (1 / 4))))
   \<and> self_mu (ex_material LinearElasticIsotropic) = Some (5 / 2 / (2 * (1 + 1 / 4)))"
proof -
  have h: "init ex_J ex_K (fresh LinearElasticIsotropic) (Some (5 / 2)) (Some (1 / 4))
             (Some 2) (Some 7)
     = (ex_material LinearElasticIsotropic, None)"
    by (rule ex_init_E_nu)
  from init_raises_ValueError [of ex_J ex_K "fresh LinearElasticIsotropic" None "Some (3 / 10)"
         "Some 2" None]
    init_raises_ValueError [of ex_J ex_K "fresh LinearElasticIsotropic" "Some (5 / 2)"
         "Some (1 / 4)" "Some 2" "Some 7" "5 / 2" "1 / 4" "ex_material LinearElasticIsotropic"]
  show ?thesis
    using h by simp
qed

subsection \<open>C9\<close>

text \<open>
  Claim C9. Built from the same arguments, an object of the plane-stress class and one of
  the base class end with the same outcome of the constructor and the same six attributes
  (they differ in their class only); \<open>constitutive_update\<close> returns the same on both for
  every strain, state and \<open>dt\<close>, and so does \<open>compute_C_plane_stress\<close>.
\<close>

theorem plane_stress_inherits:
  assumes "init J K (self\<lparr>klass := PlaneStressLinearElasticIsotropic\<rparr>) E nu kappa mu = (p, r)"
    and "init J K (self\<lparr>klass := LinearElasticIsotropic\<rparr>) E nu kappa mu = (b, r')"
  shows "r = r' \<and> self_E p = self_E b \<and> self_nu p = self_nu b
       \<and> self_kappa p = self_kappa b \<and> self_mu p = self_mu b
       \<and> self_C p = self_C b \<and> self_S p = self_S b
       \<and> p = b\<lparr>klass := PlaneStressLinearElasticIsotropic\<rparr>
       \<and> snd (constitutive_update p eps state dt) = snd (constitutive_update b eps state dt)
       \<and> compute_C_plane_stress p = compute_C_plane_stress b"
proof -
  from assms have p: "p = fst (init J K self E nu kappa mu)\<lparr>klass := PlaneStressLinearElasticIsotropic\<rparr>"
    and b: "b = fst (init J K self E nu kappa mu)\<lparr>klass := LinearElasticIsotropic\<rparr>"
    and r: "r = r'"
    by (simp_all add: init_klass)
  show ?thesis
    unfolding p b r by (simp add: constitutive_update_klass compute_C_plane_stress_klass)
qed

theorem plane_stress_inherits_witness:
  "init ex_J ex_K (fresh LinearElasticIsotropic \<lparr>klass := PlaneStressLinearElasticIsotropic\<rparr>)
      (Some (5/2)) (Some (1/4)) None None
     = (ex_material PlaneStressLinearElasticIsotropic, None)
   \<and> init ex_J ex_K (fresh LinearElasticIsotropic \<lparr>klass := LinearElasticIsotropic\<rparr>)
      (Some (5/2)) (Some (1/4)) None None
     = (ex_material LinearElasticIsotropic, None)
   \<and> self_C (ex_material PlaneStressLinearElasticIsotropic)
       = self_C (ex_material LinearElasticIsotropic)
   \<and> snd (constitutive_update (ex_material PlaneStressLinearElasticIsotropic)
             [1, 2, 3, 4, 5, 6] [''p'' \<mapsto> Scalar 0] 1)
       = snd (constitutive_update (ex_material LinearElasticIsotropic)
             [1, 2, 3, 4, 5, 6] [''p'' \<mapsto> Scalar 0] 1)"
proof -
  have p: "init ex_J ex_K (fresh LinearElasticIsotropic \<lparr>klass := PlaneStressLinearElasticIsotropic\<rparr>)
      (Some (5/2)) (Some (1/4)) None None
     = (ex_material PlaneStressLinearElasticIsotropic, None)"
    using ex_init_E_nu [of PlaneStressLinearElasticIsotropic None None] by simp
  have b: "init ex_J ex_K (fresh LinearElasticIsotropic \<lparr>klass := LinearElasticIsotropic\<rparr>)
      (Some (5/2)) (Some (1/4)) None None
     = (ex_material LinearElasticIsotropic, None)"
    using ex_init_E_nu [of LinearElasticIsotropic None None] by simp
  from plane_stress_inherits [OF p b, of "[1, 2, 3, 4, 5, 6]" "[''p'' \<mapsto> Scalar 0]" 1]
  show ?thesis
    using p b by simp
qed

subsection \<open>C10\<close>

text \<open>
  Claim C10. \<open>constitutive_update\<close> does not depend on \<open>dt\<close>, leaves the object as it
  was, and returns a state that differs from the one it was given at the key
  \<open>"Stress"\<close> only.
\<close>

theorem constitutive_update_frame:
  "constitutive_update m eps state dt = constitutive_update m eps state dt'
   \<and> fst (constitutive_update m eps state dt) = m
   \<and> (\<forall>t state'. snd (constitutive_update m eps state dt) = Inr [t, State state'] \<longrightarrow>
         (\<forall>k. k \<noteq> ''Stress'' \<longrightarrow> state' k = state k))"
  by (auto simp: constitutive_update_unfold split: option.splits if_splits)

theorem constitutive_update_frame_witness:
  "snd (constitutive_update (ex_material LinearElasticIsotropic) [1, 2, 3, 4, 5, 6]
          [''p'' \<mapsto> Scalar 0] 1)
     = Inr [Arr (Mat ex_C),
            State [''p'' \<mapsto> Scalar 0, ''Stress'' \<mapsto> Vec [8, 10, 12, 8, 10, 12]]]
   \<and> ''p'' \<noteq> ''Stress''
   \<and> [''p'' \<mapsto> Scalar 0, ''Stress'' \<mapsto> Vec [8, 10, 12, 8, 10, 12]] ''p''
       = [''p'' \<mapsto> Scalar 0] ''p''
   \<and> constitutive_update (ex_material LinearElasticIsotropic) [1, 2, 3, 4, 5, 6]
          [''p'' \<mapsto> Scalar 0] 1
       = constitutive_update (ex_material LinearElasticIsotropic) [1, 2, 3, 4, 5, 6]
          [''p'' \<mapsto> Scalar 0] (1 / 2)"
proof -
  have h: "snd (constitutive_update (ex_material LinearElasticIsotropic) [1, 2, 3, 4, 5, 6]
          [''p'' \<mapsto> Scalar 0] 1)
     = Inr [Arr (Mat ex_C),
            State [''p'' \<mapsto> Scalar 0, ''Stress'' \<mapsto> Vec [8, 10, 12, 8, 10, 12]]]"
    by (simp add: constitutive_update_unfold ex_conforms ex_matvec)
  from constitutive_update_frame
    [of "ex_material LinearElasticIsotropic" "[1, 2, 3, 4, 5, 6]" "[''p'' \<mapsto> Scalar 0]" 1 "1 / 2"]
  show ?thesis
    using h by simp
qed

end
